theory Spec2Isabelle
  imports Main
begin

section \<open>The login form component (src/app/auth/login/login.component.ts)\<close>

text \<open>
  The component owns a reactive form of two controls (email, password), three streams derived
  from the form (\<open>buttonDisabled$\<close>, \<open>emailMessage$\<close>, \<open>passwordMessage$\<close>) and the
  method \<open>onSubmit\<close>. The form classes, the validators and the stream operators come from
  the framework; the part of their behaviour the component relies on is written out below.
  The authentication service is injected: it is a parameter of \<open>onSubmit\<close>.
\<close>

subsection \<open>JavaScript values and truthiness\<close>

text \<open>
  The field \<open>error\<close> of a response has the type \<open>unknown\<close> and the component only tests
  whether it is truthy. In JavaScript \<open>undefined\<close>, \<open>null\<close>, \<open>false\<close>, \<open>0\<close>, \<open>NaN\<close>
  and the empty string are falsy, every other value (every object) is truthy.
\<close>

datatype jsval =
    JUndefined
  | JNull
  | JBool bool
  | JNum int
  | JNaN
  | JStr string
  | JObj "(string \<times> jsval) list"

fun truthy :: "jsval \<Rightarrow> bool" where
  "truthy JUndefined = False"
| "truthy JNull = False"
| "truthy (JBool b) = b"
| "truthy (JNum n) = (n \<noteq> 0)"
| "truthy JNaN = False"
| "truthy (JStr s) = (s \<noteq> [])"
| "truthy (JObj kvs) = True"

text \<open>An optional string property (\<open>token?: string\<close>): absent or a string.\<close>

fun truthyStr :: "string option \<Rightarrow> bool" where
  "truthyStr None = False"
| "truthyStr (Some s) = (s \<noteq> [])"

subsection \<open>Validators of the form library\<close>

text \<open>
  \<open>ValidationErrors\<close> is an object from error keys to values, \<open>null\<close> when a validator
  passes. \<open>e?.k\<close> in a condition asks for a truthy value under the key \<open>k\<close>.
\<close>

type_synonym validationErrors = "(string \<times> jsval) list"

type_synonym validatorFn = "string \<Rightarrow> validationErrors option"

definition hasError :: "validationErrors \<Rightarrow> string \<Rightarrow> bool" where
  "hasError e k = (case map_of e k of None \<Rightarrow> False | Some v \<Rightarrow> truthy v)"

definition isEmptyInputValue :: "string \<Rightarrow> bool" where
  "isEmptyInputValue v = (length v = 0)"

text \<open>\<open>Validators.required\<close>: an empty value is the error \<open>{required: true}\<close>.\<close>

definition required :: validatorFn where
  "required v = (if isEmptyInputValue v then Some [(''required'', JBool True)] else None)"

text \<open>
  \<open>Validators.email\<close>: an empty value passes (it is left to \<open>required\<close>); any other value
  is tested against the library's regular expression, which is the parameter \<open>re\<close> here.
\<close>

definition email :: "(string \<Rightarrow> bool) \<Rightarrow> validatorFn" where
  "email re v =
     (if isEmptyInputValue v then None
      else if re v then None
      else Some [(''email'', JBool True)])"

text \<open>
  \<open>Validators.minLength(n)\<close>: an empty value passes; a shorter value is the error
  \<open>{minlength: {requiredLength: n, actualLength: value.length}}\<close>.
\<close>

definition minLength :: "nat \<Rightarrow> validatorFn" where
  "minLength n v =
     (if isEmptyInputValue v then None
      else if length v < n
        then Some [(''minlength'',
               JObj [(''requiredLength'', JNum (int n)), (''actualLength'', JNum (int (length v)))])]
      else None)"

text \<open>
  A control with an array of validators runs all of them and merges the error objects
  (a later key overrides an earlier one); an object with no key becomes \<open>null\<close>.
\<close>

definition mergeErrors :: "validationErrors option list \<Rightarrow> validationErrors option" where
  "mergeErrors es =
     (let res = foldl (\<lambda>acc e. case e of None \<Rightarrow> acc | Some m \<Rightarrow> m @ acc) [] es
      in if res = [] then None else Some res)"

definition compose :: "validatorFn list \<Rightarrow> validatorFn" where
  "compose vs v = mergeErrors (map (\<lambda>f. f v) vs)"

subsection \<open>Form controls and the form group\<close>

datatype formStatus = VALID | INVALID | PENDING | DISABLED

text \<open>
  The state of a \<open>FormControl\<close> that the component reads: its value, its errors, and the two
  interaction flags of the library. \<open>dirty\<close> is set when the user changes the value in the
  UI, \<open>touched\<close> when the control loses focus. The value of an input is a string; its
  \<open>length\<close> is the number of its elements.
\<close>

record formControl =
  cvalue :: string
  errors :: "validationErrors option"
  dirty :: bool
  touched :: bool

record loginControls =
  emailControl :: formControl
  passwordControl :: formControl

record formGroup =
  controls :: loginControls
  status :: formStatus

text \<open>The credentials (\<open>AuthUser\<close>), which are the value of the group.\<close>

record authUser =
  email_of :: string
  password_of :: string

text \<open>\<open>formGroup.valid\<close> is the getter \<open>status === 'VALID'\<close>.\<close>

definition valid :: "formGroup \<Rightarrow> bool" where
  "valid fg = (status fg = VALID)"

text \<open>\<open>formGroup.value\<close>: the values of the two controls under their names.\<close>

definition formValue :: "formGroup \<Rightarrow> authUser" where
  "formValue fg =
     \<lparr>email_of = cvalue (emailControl (controls fg)),
      password_of = cvalue (passwordControl (controls fg))\<rparr>"

text \<open>The validator arrays of lines 27 to 31.\<close>

definition emailValidators :: "(string \<Rightarrow> bool) \<Rightarrow> validatorFn list" where
  "emailValidators re = [required, email re]"

definition passwordValidators :: "validatorFn list" where
  "passwordValidators = [required, minLength 8]"

text \<open>
  The status the library computes: a control with synchronous validators is \<open>INVALID\<close> when
  it has errors and \<open>VALID\<close> otherwise; a group without validators of its own is
  \<open>INVALID\<close> when one of its controls is and \<open>VALID\<close> otherwise.
\<close>

definition controlStatus :: "formControl \<Rightarrow> formStatus" where
  "controlStatus c = (if errors c \<noteq> None then INVALID else VALID)"

definition calculateStatus :: "loginControls \<Rightarrow> formStatus" where
  "calculateStatus cs =
     (if controlStatus (emailControl cs) = INVALID \<or> controlStatus (passwordControl cs) = INVALID
      then INVALID else VALID)"

text \<open>\<open>new FormControl(v, validators)\<close>: the validators run on the initial value.\<close>

definition newFormControl :: "validatorFn list \<Rightarrow> string \<Rightarrow> formControl" where
  "newFormControl vs v =
     \<lparr>cvalue = v, errors = compose vs v, dirty = False, touched = False\<rparr>"

definition newFormGroup :: "loginControls \<Rightarrow> formGroup" where
  "newFormGroup cs = \<lparr>controls = cs, status = calculateStatus cs\<rparr>"

text \<open>The field initialiser of lines 26 to 32.\<close>

definition formGroup_init :: "(string \<Rightarrow> bool) \<Rightarrow> formGroup" where
  "formGroup_init re =
     newFormGroup
       \<lparr>emailControl = newFormControl (emailValidators re) [],
        passwordControl = newFormControl passwordValidators []\<rparr>"

text \<open>
  What the UI binding does when the user types into an input: the control is marked dirty,
  takes the new value, its validators run, and the group's status is computed again.
  When the input loses focus the control is marked touched.
\<close>

definition inputControl :: "validatorFn list \<Rightarrow> string \<Rightarrow> formControl \<Rightarrow> formControl" where
  "inputControl vs v c = c\<lparr>cvalue := v, errors := compose vs v, dirty := True\<rparr>"

definition inputEmail :: "(string \<Rightarrow> bool) \<Rightarrow> string \<Rightarrow> formGroup \<Rightarrow> formGroup" where
  "inputEmail re v fg =
     newFormGroup ((controls fg)\<lparr>emailControl :=
        inputControl (emailValidators re) v (emailControl (controls fg))\<rparr>)"

definition inputPassword :: "string \<Rightarrow> formGroup \<Rightarrow> formGroup" where
  "inputPassword v fg =
     newFormGroup ((controls fg)\<lparr>passwordControl :=
        inputControl passwordValidators v (passwordControl (controls fg))\<rparr>)"

definition blurPassword :: "formGroup \<Rightarrow> formGroup" where
  "blurPassword fg =
     fg\<lparr>controls := (controls fg)\<lparr>passwordControl :=
        (passwordControl (controls fg))\<lparr>touched := True\<rparr>\<rparr>\<rparr>"

definition blurEmail :: "formGroup \<Rightarrow> formGroup" where
  "blurEmail fg =
     fg\<lparr>controls := (controls fg)\<lparr>emailControl :=
        (emailControl (controls fg))\<lparr>touched := True\<rparr>\<rparr>\<rparr>"

text \<open>
  The user's interactions with the two inputs, and the form after a sequence of them,
  starting from the form as the component creates it.
\<close>

datatype uiEvent = InputEmail string | InputPassword string | BlurEmail | BlurPassword

fun uiStep :: "(string \<Rightarrow> bool) \<Rightarrow> formGroup \<Rightarrow> uiEvent \<Rightarrow> formGroup" where
  "uiStep re fg (InputEmail v) = inputEmail re v fg"
| "uiStep re fg (InputPassword v) = inputPassword v fg"
| "uiStep re fg BlurEmail = blurEmail fg"
| "uiStep re fg BlurPassword = blurPassword fg"

definition run :: "(string \<Rightarrow> bool) \<Rightarrow> uiEvent list \<Rightarrow> formGroup" where
  "run re evs = foldl (uiStep re) (formGroup_init re) evs"

text \<open>The user has interacted with the password input: typed into it or left it.\<close>

fun onPassword :: "uiEvent \<Rightarrow> bool" where
  "onPassword (InputPassword v) = True"
| "onPassword BlurPassword = True"
| "onPassword ev = False"

definition interactedPassword :: "uiEvent list \<Rightarrow> bool" where
  "interactedPassword evs = (\<exists>ev \<in> set evs. onPassword ev)"

subsection \<open>Streams\<close>

text \<open>
  An observable is modelled by the list of the values it emits to a subscriber, in order.
  \<open>map\<close> of rxjs applies the projection to every emission, \<open>startWith\<close> emits its
  argument first.
\<close>

definition rx_map :: "('a \<Rightarrow> 'b) \<Rightarrow> 'a list \<Rightarrow> 'b list" where
  "rx_map f xs = map f xs"

definition startWith :: "'a \<Rightarrow> 'a list \<Rightarrow> 'a list" where
  "startWith v xs = v # xs"

text \<open>
  \<open>valueChanges\<close> and \<open>statusChanges\<close> of the group emit once each time a control takes
  a new value, after the errors and the status have been computed again; marking a control
  as touched emits nothing. \<open>changes re fg evs\<close> lists the form at each of these emissions
  while the events \<open>evs\<close> happen to the form \<open>fg\<close>.
\<close>

fun emits :: "uiEvent \<Rightarrow> bool" where
  "emits (InputEmail v) = True"
| "emits (InputPassword v) = True"
| "emits BlurEmail = False"
| "emits BlurPassword = False"

fun changes :: "(string \<Rightarrow> bool) \<Rightarrow> formGroup \<Rightarrow> uiEvent list \<Rightarrow> formGroup list" where
  "changes re fg [] = []"
| "changes re fg (ev # evs) =
     (if emits ev then uiStep re fg ev # changes re (uiStep re fg ev) evs
      else changes re (uiStep re fg ev) evs)"

text \<open>
  The interactions that have happened at each of these emissions, after the interactions
  \<open>past\<close>: the history of the \<open>i\<close>-th emission is the \<open>i\<close>-th element.
\<close>

fun emissionHistories :: "uiEvent list \<Rightarrow> uiEvent list \<Rightarrow> uiEvent list list" where
  "emissionHistories past [] = []"
| "emissionHistories past (ev # evs) =
     (if emits ev then (past @ [ev]) # emissionHistories (past @ [ev]) evs
      else emissionHistories (past @ [ev]) evs)"

text \<open>Lines 38 to 41; the argument is what \<open>statusChanges\<close> emits.\<close>

definition buttonDisabled :: "formStatus list \<Rightarrow> bool list" where
  "buttonDisabled statusChanges = startWith True (rx_map (\<lambda>status. status = INVALID) statusChanges)"

text \<open>
  Lines 47 to 60. The projection ignores the emitted value and reads the email control of
  the form as it is at the emission; \<open>emailMessage\<close> is that projection and the stream
  maps it over the form states at the emissions of \<open>valueChanges\<close>.
\<close>

definition emailMessage :: "formGroup \<Rightarrow> string" where
  "emailMessage fg =
     (case errors (emailControl (controls fg)) of
        Some emailErrors \<Rightarrow>
          if hasError emailErrors ''required'' then ''This filed is required''
          else if hasError emailErrors ''email'' then ''Wrong email format''
          else ''''
      | None \<Rightarrow> '''')"

definition emailMessage_stream :: "formGroup list \<Rightarrow> string list" where
  "emailMessage_stream valueChanges = rx_map emailMessage valueChanges"

text \<open>Lines 65 to 80, in the same way.\<close>

definition passwordMessage :: "formGroup \<Rightarrow> string" where
  "passwordMessage fg =
     (case errors (passwordControl (controls fg)) of
        Some passwordErrors \<Rightarrow>
          if dirty (passwordControl (controls fg)) then
            (if hasError passwordErrors ''required'' then ''Password is required''
             else if hasError passwordErrors ''minlength''
               then ''Password should have at least 8 characters''
             else '''')
          else ''''
      | None \<Rightarrow> '''')"

definition passwordMessage_stream :: "formGroup list \<Rightarrow> string list" where
  "passwordMessage_stream valueChanges = rx_map passwordMessage valueChanges"

text \<open>
  What holds of the password control after any sequence of interactions: its errors are
  those of its validators on its value, a value that is not empty was typed, and a control
  that is dirty was interacted with.
\<close>

definition passwordInv :: "uiEvent list \<Rightarrow> formControl \<Rightarrow> bool" where
  "passwordInv evs c =
     (errors c = compose passwordValidators (cvalue c) \<and>
      (cvalue c \<noteq> [] \<longrightarrow> dirty c) \<and>
      (dirty c \<longrightarrow> interactedPassword evs))"

subsection \<open>The submit action\<close>

text \<open>
  \<open>AuthResponse\<close> has an optional \<open>token\<close> and an optional \<open>error\<close>; an absent
  \<open>error\<close> reads as \<open>undefined\<close>.
\<close>

record authResponse =
  token :: "string option"
  error :: jsval

text \<open>The third argument of \<open>snackBar.open\<close>; a property that is not given is \<open>None\<close>.\<close>

record matSnackBarConfig =
  duration :: "nat option"
  verticalPosition :: "string option"
  horizontalPosition :: "string option"

text \<open>
  What the component does to its collaborators, in the order it does it: the call of
  \<open>authService.loginUser\<close>, \<open>snackBar.open(message, action, config)\<close> and
  \<open>router.navigateByUrl\<close>.
\<close>

datatype effect =
    LoginUser authUser
  | SnackBarOpen string "string option" matSnackBarConfig
  | NavigateByUrl string

text \<open>The subscriber of lines 111 to 127, called with each response the service emits.\<close>

definition onResponse :: "authResponse \<Rightarrow> effect list" where
  "onResponse response =
     (if truthy (error response) then
        [SnackBarOpen ''Login failed'' None
           \<lparr>duration = Some 1000, verticalPosition = None, horizontalPosition = None\<rparr>]
      else if truthyStr (token response) then
        [SnackBarOpen ''Logged in!'' None
           \<lparr>duration = Some 1000, verticalPosition = Some ''top'',
            horizontalPosition = Some ''right''\<rparr>,
         NavigateByUrl ''/settings'']
      else [])"

text \<open>
  The state \<open>onSubmit\<close> works on: the form of the component and the trace of effects so
  far. The service is a function from the credentials to the responses its observable emits
  (none when the call fails, one for an HTTP call). The responses of a call are handled right
  after the call in the trace.
\<close>

record loginState =
  formGroup :: formGroup
  trace :: "effect list"

definition onSubmit :: "(authUser \<Rightarrow> authResponse list) \<Rightarrow> 'e \<Rightarrow> loginState \<Rightarrow> loginState" where
  "onSubmit loginUser event s =
     (if valid (formGroup s) then
        (let user = formValue (formGroup s)
         in s\<lparr>trace := trace s @ LoginUser user # concat (map onResponse (loginUser user))\<rparr>)
      else s)"

text \<open>Reading a trace: the calls of the service, the notifications, the navigations.\<close>

fun loginCalls :: "effect list \<Rightarrow> authUser list" where
  "loginCalls [] = []"
| "loginCalls (LoginUser u # t) = u # loginCalls t"
| "loginCalls (_ # t) = loginCalls t"

fun notifications :: "effect list \<Rightarrow> (string \<times> matSnackBarConfig) list" where
  "notifications [] = []"
| "notifications (SnackBarOpen m a c # t) = (m, c) # notifications t"
| "notifications (_ # t) = notifications t"

fun navigations :: "effect list \<Rightarrow> string list" where
  "navigations [] = []"
| "navigations (NavigateByUrl p # t) = p # navigations t"
| "navigations (_ # t) = navigations t"

section \<open>Properties\<close>

lemmas form_defs = valid_def formValue_def formGroup_init_def newFormGroup_def newFormControl_def
  calculateStatus_def controlStatus_def compose_def mergeErrors_def emailValidators_def
  passwordValidators_def required_def email_def minLength_def isEmptyInputValue_def
  inputControl_def inputEmail_def inputPassword_def blurPassword_def hasError_def

lemmas ui_defs = blurEmail_def blurPassword_def inputEmail_def inputPassword_def inputControl_def
  newFormGroup_def

lemma run_Nil: "run re [] = formGroup_init re"
  by (simp add: run_def)

lemma run_snoc: "run re (evs @ [ev]) = uiStep re (run re evs) ev"
  by (simp add: run_def)

lemma compose_password_empty:
  "compose passwordValidators [] = Some [(''required'', JBool True)]"
  by (simp add: form_defs)

lemma compose_password_short:
  "v \<noteq> [] \<Longrightarrow> length v < 8 \<Longrightarrow>
   compose passwordValidators v =
     Some [(''minlength'',
             JObj [(''requiredLength'', JNum 8), (''actualLength'', JNum (int (length v)))])]"
  by (simp add: form_defs)

lemma compose_password_long:
  "8 \<le> length v \<Longrightarrow> compose passwordValidators v = None"
  by (auto simp add: form_defs)

lemma passwordInv_run: "passwordInv evs (passwordControl (controls (run re evs)))"
proof (induction evs rule: rev_induct)
  case Nil
  show ?case
    by (simp add: passwordInv_def run_Nil formGroup_init_def newFormGroup_def newFormControl_def)
next
  case (snoc ev evs)
  then show ?case
    by (cases ev) (auto simp add: passwordInv_def run_snoc ui_defs interactedPassword_def)
qed

lemma status_changes:
  "fg \<in> set (changes re fg0 evs) \<Longrightarrow> status fg = calculateStatus (controls fg)"
proof (induction evs arbitrary: fg0)
  case Nil
  then show ?case by simp
next
  case (Cons ev evs)
  then show ?case
    by (cases ev) (auto simp add: inputEmail_def inputPassword_def newFormGroup_def)
qed

lemma calculateStatus_cases: "calculateStatus cs = VALID \<or> calculateStatus cs = INVALID"
  by (simp add: calculateStatus_def)

lemma compose_email_empty:
  "compose (emailValidators re) [] = Some [(''required'', JBool True)]"
  by (simp add: form_defs)

lemma compose_email_nonempty:
  "v \<noteq> [] \<Longrightarrow>
   compose (emailValidators re) v = (if re v then None else Some [(''email'', JBool True)])"
  by (simp add: form_defs)

lemma emailInv_run:
  "errors (emailControl (controls (run re evs))) =
     compose (emailValidators re) (cvalue (emailControl (controls (run re evs))))"
proof (induction evs rule: rev_induct)
  case Nil
  show ?case
    by (simp add: run_Nil formGroup_init_def newFormGroup_def newFormControl_def)
next
  case (snoc ev evs)
  then show ?case
    by (cases ev) (simp_all add: run_snoc ui_defs)
qed

lemma changes_histories:
  "changes re (foldl (uiStep re) fg0 past) evs =
     map (\<lambda>h. foldl (uiStep re) fg0 h) (emissionHistories past evs)"
proof (induction evs arbitrary: past)
  case Nil
  show ?case by simp
next
  case (Cons ev evs)
  from Cons [of "past @ [ev]"] show ?case
    by simp
qed

lemma changes_run: "changes re (formGroup_init re) evs = map (run re) (emissionHistories [] evs)"
  using changes_histories [of re "formGroup_init re" "[]" evs] by (simp add: run_def)

lemma length_changes: "length (changes re fg0 evs) = length (filter emits evs)"
  by (induction evs arbitrary: fg0) simp_all

lemma changes_append:
  "changes re fg0 (xs @ ys) = changes re fg0 xs @ changes re (foldl (uiStep re) fg0 xs) ys"
  by (induction xs arbitrary: fg0) simp_all

lemma changes_nth_run:
  "i < length (changes re (formGroup_init re) evs) \<Longrightarrow>
   changes re (formGroup_init re) evs ! i = run re (emissionHistories [] evs ! i)"
  by (simp add: changes_run)

lemma emailMessage_stream_nth:
  "i < length vc \<Longrightarrow> emailMessage_stream vc ! i = emailMessage (vc ! i)"
  by (simp add: emailMessage_stream_def rx_map_def)

lemma passwordMessage_stream_nth:
  "i < length vc \<Longrightarrow> passwordMessage_stream vc ! i = passwordMessage (vc ! i)"
  by (simp add: passwordMessage_stream_def rx_map_def)

lemma emailMessage_inputEmail:
  "emailMessage (inputEmail re v fg) =
     (if v = [] then ''This filed is required''
      else if re v then [] else ''Wrong email format'')"
  by (simp add: emailMessage_def form_defs)

lemma passwordMessage_inputPassword:
  "passwordMessage (inputPassword v fg) =
     (if v = [] then ''Password is required''
      else if length v < 8 then ''Password should have at least 8 characters'' else [])"
  by (simp add: passwordMessage_def form_defs)

lemma emailMessage_run:
  "emailMessage (run re evs) =
     (if cvalue (emailControl (controls (run re evs))) = [] then ''This filed is required''
      else if re (cvalue (emailControl (controls (run re evs)))) then []
      else ''Wrong email format'')"
proof (cases "cvalue (emailControl (controls (run re evs))) = []")
  case True
  with emailInv_run [of re evs]
  have "errors (emailControl (controls (run re evs))) = Some [(''required'', JBool True)]"
    by (simp add: compose_email_empty)
  with True show ?thesis
    by (simp add: emailMessage_def hasError_def)
next
  case False
  with emailInv_run [of re evs]
  have "errors (emailControl (controls (run re evs))) =
      (if re (cvalue (emailControl (controls (run re evs)))) then None
       else Some [(''email'', JBool True)])"
    by (simp add: compose_email_nonempty)
  with False show ?thesis
    by (simp add: emailMessage_def hasError_def)
qed

lemma passwordMessage_not_dirty:
  "\<not> dirty (passwordControl (controls fg)) \<Longrightarrow> passwordMessage fg = []"
  by (simp add: passwordMessage_def split: option.split)

lemma passwordMessage_run_pristine:
  assumes "\<not> interactedPassword evs"
  shows "passwordMessage (run re evs) = []"
proof -
  from passwordInv_run [of evs re] assms
  have "\<not> dirty (passwordControl (controls (run re evs)))"
    by (auto simp add: passwordInv_def)
  then show ?thesis
    by (rule passwordMessage_not_dirty)
qed

lemma passwordMessage_run_short:
  assumes "cvalue (passwordControl (controls (run re evs))) \<noteq> []"
    and "length (cvalue (passwordControl (controls (run re evs)))) < 8"
  shows "passwordMessage (run re evs) = ''Password should have at least 8 characters''"
proof -
  have inv: "passwordInv evs (passwordControl (controls (run re evs)))"
    by (rule passwordInv_run)
  with assms have d: "dirty (passwordControl (controls (run re evs)))"
    by (simp add: passwordInv_def)
  from inv assms have "errors (passwordControl (controls (run re evs))) =
      Some [(''minlength'', JObj [(''requiredLength'', JNum 8),
        (''actualLength'',
         JNum (int (length (cvalue (passwordControl (controls (run re evs)))))))])]"
    by (simp add: passwordInv_def compose_password_short)
  with d show ?thesis
    by (simp add: passwordMessage_def hasError_def)
qed

lemma passwordMessage_run_empty:
  assumes "dirty (passwordControl (controls (run re evs)))"
    and "cvalue (passwordControl (controls (run re evs))) = []"
  shows "passwordMessage (run re evs) = ''Password is required''"
proof -
  from passwordInv_run [of evs re] assms
  have "errors (passwordControl (controls (run re evs))) = Some [(''required'', JBool True)]"
    by (simp add: passwordInv_def compose_password_empty)
  with assms show ?thesis
    by (simp add: passwordMessage_def hasError_def)
qed

lemma buttonDisabled_nth:
  "i < length ss \<Longrightarrow> buttonDisabled ss ! Suc i = (ss ! i = INVALID)"
  by (simp add: buttonDisabled_def startWith_def rx_map_def)

lemma loginCalls_append: "loginCalls (xs @ ys) = loginCalls xs @ loginCalls ys"
  by (induction xs rule: loginCalls.induct) simp_all

lemma notifications_append: "notifications (xs @ ys) = notifications xs @ notifications ys"
  by (induction xs rule: notifications.induct) simp_all

lemma navigations_append: "navigations (xs @ ys) = navigations xs @ navigations ys"
  by (induction xs rule: navigations.induct) simp_all

lemma loginCalls_onResponse: "loginCalls (onResponse r) = []"
  by (simp add: onResponse_def)

lemma loginCalls_responses: "loginCalls (concat (map onResponse rs)) = []"
  by (induction rs) (simp_all add: loginCalls_append loginCalls_onResponse)

lemma onSubmit_trace:
  "valid (formGroup s) \<Longrightarrow>
   trace (onSubmit loginUser event s) =
     trace s @ LoginUser (formValue (formGroup s)) #
       concat (map onResponse (loginUser (formValue (formGroup s))))"
  by (simp add: onSubmit_def Let_def)

lemma onSubmit_formGroup: "formGroup (onSubmit loginUser event s) = formGroup s"
  by (simp add: onSubmit_def Let_def)

lemma onSubmit_single_notifications:
  "valid (formGroup s) \<Longrightarrow> loginUser (formValue (formGroup s)) = [r] \<Longrightarrow>
   notifications (trace (onSubmit loginUser event s)) =
     notifications (trace s) @ notifications (onResponse r)"
  by (simp add: onSubmit_trace notifications_append)

lemma onSubmit_single_navigations:
  "valid (formGroup s) \<Longrightarrow> loginUser (formValue (formGroup s)) = [r] \<Longrightarrow>
   navigations (trace (onSubmit loginUser event s)) =
     navigations (trace s) @ navigations (onResponse r)"
  by (simp add: onSubmit_trace navigations_append)

subsection \<open>Submitting an invalid form\<close>

text \<open>
  C1. While the form is not valid, any number of calls of \<open>onSubmit\<close>, with any event
  arguments, leaves the state as it was: the form is unchanged and the trace has no new
  call of \<open>loginUser\<close>, no new notification and no new navigation.
\<close>

theorem onSubmit_invalid_noop:
  assumes "\<not> valid (formGroup s)"
  shows "foldl (\<lambda>s' event. onSubmit loginUser event s') s events = s"
  using assms by (induction events) (simp_all add: onSubmit_def)

text \<open>The empty form of the component is not valid; three submissions change nothing.\<close>

theorem onSubmit_invalid_noop_witness:
  "\<not> valid (formGroup \<lparr>formGroup = formGroup_init (\<lambda>v. False), trace = []\<rparr>) \<and>
   foldl (\<lambda>s' event. onSubmit (\<lambda>u. [\<lparr>token = Some ''abc123'', error = JUndefined\<rparr>]) event s')
     \<lparr>formGroup = formGroup_init (\<lambda>v. False), trace = []\<rparr> [(), (), ()] =
   \<lparr>formGroup = formGroup_init (\<lambda>v. False), trace = []\<rparr>"
proof -
  have h: "\<not> valid (formGroup \<lparr>formGroup = formGroup_init (\<lambda>v. False), trace = []\<rparr>)"
    by (simp add: form_defs)
  from onSubmit_invalid_noop [OF h] h show ?thesis by blast
qed

subsection \<open>Submitting a valid form\<close>

text \<open>
  C2. When the form is valid, \<open>onSubmit\<close> adds exactly one call of \<open>loginUser\<close> to the
  trace, and its argument is the value of the form. Scenario A: after the user has typed
  the email a@b.com (which the email pattern accepts) and the password password1 into the
  empty form, the only call is the one with these two strings.
\<close>

theorem onSubmit_valid_calls_loginUser_once:
  "(valid (formGroup s) \<longrightarrow>
      loginCalls (trace (onSubmit loginUser event s)) =
        loginCalls (trace s) @ [formValue (formGroup s)]) \<and>
   (re ''a@b.com'' \<longrightarrow>
      loginCalls (trace (onSubmit loginUser event
        \<lparr>formGroup = inputPassword ''password1'' (inputEmail re ''a@b.com'' (formGroup_init re)),
         trace = []\<rparr>)) =
        [\<lparr>email_of = ''a@b.com'', password_of = ''password1''\<rparr>])"
proof (intro conjI impI)
  assume "valid (formGroup s)"
  then show "loginCalls (trace (onSubmit loginUser event s)) =
        loginCalls (trace s) @ [formValue (formGroup s)]"
    by (simp add: onSubmit_trace loginCalls_append loginCalls_responses)
next
  let ?fg = "inputPassword ''password1'' (inputEmail re ''a@b.com'' (formGroup_init re))"
  assume re: "re ''a@b.com''"
  then have v: "valid (formGroup \<lparr>formGroup = ?fg, trace = []\<rparr>)"
    by (simp add: form_defs)
  have fv: "formValue ?fg = \<lparr>email_of = ''a@b.com'', password_of = ''password1''\<rparr>"
    by (simp add: form_defs)
  show "loginCalls (trace (onSubmit loginUser event \<lparr>formGroup = ?fg, trace = []\<rparr>)) =
        [\<lparr>email_of = ''a@b.com'', password_of = ''password1''\<rparr>]"
    using fv by (simp add: onSubmit_trace [OF v] loginCalls_append loginCalls_responses)
qed

text \<open>
  A form holding x@y.org and a password of ten characters, with one earlier call in the
  trace; and scenario A with a pattern that accepts a@b.com.
\<close>

theorem onSubmit_valid_calls_loginUser_once_witness:
  "valid (formGroup
     \<lparr>formGroup = inputPassword ''0123456789'' (inputEmail (\<lambda>v. True) ''x@y.org''
        (formGroup_init (\<lambda>v. True))),
      trace = [LoginUser \<lparr>email_of = ''q'', password_of = ''r''\<rparr>]\<rparr>) \<and>
   loginCalls (trace (onSubmit (\<lambda>u. [\<lparr>token = None, error = JStr ''bad credentials''\<rparr>]) ()
     \<lparr>formGroup = inputPassword ''0123456789'' (inputEmail (\<lambda>v. True) ''x@y.org''
        (formGroup_init (\<lambda>v. True))),
      trace = [LoginUser \<lparr>email_of = ''q'', password_of = ''r''\<rparr>]\<rparr>)) =
     [\<lparr>email_of = ''q'', password_of = ''r''\<rparr>,
      \<lparr>email_of = ''x@y.org'', password_of = ''0123456789''\<rparr>] \<and>
   (\<lambda>v. v = ''a@b.com'') ''a@b.com'' \<and>
   loginCalls (trace (onSubmit (\<lambda>u. [\<lparr>token = Some ''abc123'', error = JUndefined\<rparr>]) ()
     \<lparr>formGroup = inputPassword ''password1'' (inputEmail (\<lambda>v. v = ''a@b.com'') ''a@b.com''
        (formGroup_init (\<lambda>v. v = ''a@b.com''))),
      trace = []\<rparr>)) =
     [\<lparr>email_of = ''a@b.com'', password_of = ''password1''\<rparr>]"
proof -
  let ?s = "\<lparr>formGroup = inputPassword ''0123456789'' (inputEmail (\<lambda>v. True) ''x@y.org''
        (formGroup_init (\<lambda>v. True))),
      trace = [LoginUser \<lparr>email_of = ''q'', password_of = ''r''\<rparr>]\<rparr>"
  have v: "valid (formGroup ?s)"
    by (simp add: form_defs)
  have fv: "formValue (formGroup ?s) = \<lparr>email_of = ''x@y.org'', password_of = ''0123456789''\<rparr>"
    by (simp add: form_defs)
  have re: "(\<lambda>v. v = ''a@b.com'') ''a@b.com''"
    by simp
  from onSubmit_valid_calls_loginUser_once
    [of ?s "\<lambda>u. [\<lparr>token = None, error = JStr ''bad credentials''\<rparr>]" "()"]
  have a: "loginCalls (trace (onSubmit (\<lambda>u. [\<lparr>token = None, error = JStr ''bad credentials''\<rparr>])
      () ?s)) = loginCalls (trace ?s) @ [formValue (formGroup ?s)]"
    using v by blast
  from onSubmit_valid_calls_loginUser_once
    [where re = "\<lambda>v. v = ''a@b.com''" and event = "()"
       and loginUser = "\<lambda>u. [\<lparr>token = Some ''abc123'', error = JUndefined\<rparr>]"]
  have b: "loginCalls (trace (onSubmit (\<lambda>u. [\<lparr>token = Some ''abc123'', error = JUndefined\<rparr>]) ()
     \<lparr>formGroup = inputPassword ''password1'' (inputEmail (\<lambda>v. v = ''a@b.com'') ''a@b.com''
        (formGroup_init (\<lambda>v. v = ''a@b.com''))),
      trace = []\<rparr>)) =
     [\<lparr>email_of = ''a@b.com'', password_of = ''password1''\<rparr>]"
    using re by blast
  show ?thesis
    using v a b fv by simp
qed

subsection \<open>Handling the response\<close>

text \<open>
  C3. For a response whose \<open>error\<close> is truthy the subscriber opens one notification,
  \<open>Login failed\<close> with the duration 1000 and nothing else in its configuration, and does
  not navigate. In the submit flow of a valid form whose service emits this response, the
  trace gains this one notification and no navigation.
\<close>

theorem onSubmit_error_response:
  assumes "truthy (error response)"
  shows "onResponse response =
           [SnackBarOpen ''Login failed'' None
              \<lparr>duration = Some 1000, verticalPosition = None, horizontalPosition = None\<rparr>] \<and>
         (valid (formGroup s) \<and> loginUser (formValue (formGroup s)) = [response] \<longrightarrow>
            notifications (trace (onSubmit loginUser event s)) =
              notifications (trace s) @
                [(''Login failed'',
                  \<lparr>duration = Some 1000, verticalPosition = None, horizontalPosition = None\<rparr>)] \<and>
            navigations (trace (onSubmit loginUser event s)) = navigations (trace s))"
proof -
  have r: "onResponse response =
           [SnackBarOpen ''Login failed'' None
              \<lparr>duration = Some 1000, verticalPosition = None, horizontalPosition = None\<rparr>]"
    using assms by (simp add: onResponse_def)
  show ?thesis
    by (simp add: r onSubmit_single_notifications onSubmit_single_navigations)
qed

text \<open>Scenario B: the response \<open>{error: "bad credentials"}\<close> to a valid form.\<close>

theorem onSubmit_error_response_witness:
  "truthy (error \<lparr>token = None, error = JStr ''bad credentials''\<rparr>) \<and>
   valid (inputPassword ''password1'' (inputEmail (\<lambda>v. True) ''a@b.com''
      (formGroup_init (\<lambda>v. True)))) \<and>
   onResponse \<lparr>token = None, error = JStr ''bad credentials''\<rparr> =
     [SnackBarOpen ''Login failed'' None \<lparr>duration = Some 1000, verticalPosition = None, horizontalPosition = None\<rparr>] \<and>
   notifications (trace (onSubmit (\<lambda>u. [\<lparr>token = None, error = JStr ''bad credentials''\<rparr>]) ()
     \<lparr>formGroup = inputPassword ''password1'' (inputEmail (\<lambda>v. True) ''a@b.com''
      (formGroup_init (\<lambda>v. True))),
      trace = []\<rparr>)) =
     [(''Login failed'', \<lparr>duration = Some 1000, verticalPosition = None, horizontalPosition = None\<rparr>)] \<and>
   navigations (trace (onSubmit (\<lambda>u. [\<lparr>token = None, error = JStr ''bad credentials''\<rparr>]) ()
     \<lparr>formGroup = inputPassword ''password1'' (inputEmail (\<lambda>v. True) ''a@b.com''
      (formGroup_init (\<lambda>v. True))),
      trace = []\<rparr>)) =
     []"
proof -
  let ?r = "\<lparr>token = None, error = JStr ''bad credentials''\<rparr>"
  let ?fg = "inputPassword ''password1'' (inputEmail (\<lambda>v. True) ''a@b.com''
      (formGroup_init (\<lambda>v. True)))"
  let ?s = "\<lparr>formGroup = ?fg, trace = []\<rparr>"
  have e: "truthy (error ?r)"
    by simp
  have v: "valid ?fg"
    by (simp add: form_defs)
  have v': "valid (formGroup ?s) \<and> (\<lambda>u. [?r]) (formValue (formGroup ?s)) = [?r]"
    using v by simp
  from onSubmit_error_response [OF e, of ?s "\<lambda>u. [?r]" "()"] v'
  have "onResponse ?r =
          [SnackBarOpen ''Login failed'' None \<lparr>duration = Some 1000, verticalPosition = None, horizontalPosition = None\<rparr>] \<and>
        notifications (trace (onSubmit (\<lambda>u. [?r]) () ?s)) =
          notifications (trace ?s) @
          [(''Login failed'', \<lparr>duration = Some 1000, verticalPosition = None, horizontalPosition = None\<rparr>)] \<and>
        navigations (trace (onSubmit (\<lambda>u. [?r]) () ?s)) =
          navigations (trace ?s) @ []"
    by simp
  then have "onResponse ?r =
          [SnackBarOpen ''Login failed'' None \<lparr>duration = Some 1000, verticalPosition = None, horizontalPosition = None\<rparr>] \<and>
        notifications (trace (onSubmit (\<lambda>u. [?r]) () ?s)) =
          [(''Login failed'', \<lparr>duration = Some 1000, verticalPosition = None, horizontalPosition = None\<rparr>)] \<and>
        navigations (trace (onSubmit (\<lambda>u. [?r]) () ?s)) = []"
    by simp
  with e v show ?thesis
    by blast
qed

text \<open>
  C4. For a response whose \<open>error\<close> is falsy and whose \<open>token\<close> is truthy the subscriber
  opens one notification, \<open>Logged in!\<close> with the duration 1000 at the top and on the
  right, and then navigates once, to \<open>/settings\<close>.
\<close>

theorem onSubmit_token_response:
  assumes "\<not> truthy (error response)" and "truthyStr (token response)"
  shows "onResponse response =
           [SnackBarOpen ''Logged in!'' None
              \<lparr>duration = Some 1000, verticalPosition = Some ''top'',
               horizontalPosition = Some ''right''\<rparr>,
            NavigateByUrl ''/settings''] \<and>
         (valid (formGroup s) \<and> loginUser (formValue (formGroup s)) = [response] \<longrightarrow>
            notifications (trace (onSubmit loginUser event s)) =
              notifications (trace s) @
                [(''Logged in!'',
                  \<lparr>duration = Some 1000, verticalPosition = Some ''top'',
                   horizontalPosition = Some ''right''\<rparr>)] \<and>
            navigations (trace (onSubmit loginUser event s)) =
              navigations (trace s) @ [''/settings''])"
proof -
  have r: "onResponse response =
           [SnackBarOpen ''Logged in!'' None
              \<lparr>duration = Some 1000, verticalPosition = Some ''top'',
               horizontalPosition = Some ''right''\<rparr>,
            NavigateByUrl ''/settings'']"
    using assms by (simp add: onResponse_def)
  show ?thesis
    by (simp add: r onSubmit_single_notifications onSubmit_single_navigations)
qed

text \<open>Scenario C: the response \<open>{token: "abc123"}\<close> to a valid form.\<close>

theorem onSubmit_token_response_witness:
  "\<not> truthy (error \<lparr>token = Some ''abc123'', error = JUndefined\<rparr>) \<and>
   truthyStr (token \<lparr>token = Some ''abc123'', error = JUndefined\<rparr>) \<and>
   valid (inputPassword ''password1'' (inputEmail (\<lambda>v. True) ''a@b.com''
      (formGroup_init (\<lambda>v. True)))) \<and>
   onResponse \<lparr>token = Some ''abc123'', error = JUndefined\<rparr> =
     [SnackBarOpen ''Logged in!'' None
            \<lparr>duration = Some 1000, verticalPosition = Some ''top'', horizontalPosition = Some ''right''\<rparr>,
           NavigateByUrl ''/settings''] \<and>
   notifications (trace (onSubmit (\<lambda>u. [\<lparr>token = Some ''abc123'', error = JUndefined\<rparr>]) ()
     \<lparr>formGroup = inputPassword ''password1'' (inputEmail (\<lambda>v. True) ''a@b.com''
      (formGroup_init (\<lambda>v. True))),
      trace = []\<rparr>)) =
     [(''Logged in!'',
            \<lparr>duration = Some 1000, verticalPosition = Some ''top'', horizontalPosition = Some ''right''\<rparr>)] \<and>
   navigations (trace (onSubmit (\<lambda>u. [\<lparr>token = Some ''abc123'', error = JUndefined\<rparr>]) ()
     \<lparr>formGroup = inputPassword ''password1'' (inputEmail (\<lambda>v. True) ''a@b.com''
      (formGroup_init (\<lambda>v. True))),
      trace = []\<rparr>)) =
     [''/settings'']"
proof -
  let ?r = "\<lparr>token = Some ''abc123'', error = JUndefined\<rparr>"
  let ?fg = "inputPassword ''password1'' (inputEmail (\<lambda>v. True) ''a@b.com''
      (formGroup_init (\<lambda>v. True)))"
  let ?s = "\<lparr>formGroup = ?fg, trace = []\<rparr>"
  have e: "\<not> truthy (error ?r)" and t: "truthyStr (token ?r)"
    by simp_all
  have v: "valid ?fg"
    by (simp add: form_defs)
  have v': "valid (formGroup ?s) \<and> (\<lambda>u. [?r]) (formValue (formGroup ?s)) = [?r]"
    using v by simp
  from onSubmit_token_response [OF e t, of ?s "\<lambda>u. [?r]" "()"] v'
  have "onResponse ?r =
          [SnackBarOpen ''Logged in!'' None
            \<lparr>duration = Some 1000, verticalPosition = Some ''top'', horizontalPosition = Some ''right''\<rparr>,
           NavigateByUrl ''/settings''] \<and>
        notifications (trace (onSubmit (\<lambda>u. [?r]) () ?s)) =
          notifications (trace ?s) @
          [(''Logged in!'',
            \<lparr>duration = Some 1000, verticalPosition = Some ''top'', horizontalPosition = Some ''right''\<rparr>)] \<and>
        navigations (trace (onSubmit (\<lambda>u. [?r]) () ?s)) =
          navigations (trace ?s) @ [''/settings'']"
    by simp
  then have "onResponse ?r =
          [SnackBarOpen ''Logged in!'' None
            \<lparr>duration = Some 1000, verticalPosition = Some ''top'', horizontalPosition = Some ''right''\<rparr>,
           NavigateByUrl ''/settings''] \<and>
        notifications (trace (onSubmit (\<lambda>u. [?r]) () ?s)) =
          [(''Logged in!'',
            \<lparr>duration = Some 1000, verticalPosition = Some ''top'', horizontalPosition = Some ''right''\<rparr>)] \<and>
        navigations (trace (onSubmit (\<lambda>u. [?r]) () ?s)) = [''/settings'']"
    by simp
  with e t v show ?thesis
    by blast
qed

text \<open>
  C5. For a response in which neither \<open>error\<close> nor \<open>token\<close> is truthy the subscriber
  does nothing: the submit flow adds no notification and no navigation to the trace.
\<close>

theorem onSubmit_empty_response:
  assumes "\<not> truthy (error response)" and "\<not> truthyStr (token response)"
  shows "onResponse response = [] \<and>
         (valid (formGroup s) \<and> loginUser (formValue (formGroup s)) = [response] \<longrightarrow>
            notifications (trace (onSubmit loginUser event s)) = notifications (trace s) \<and>
            navigations (trace (onSubmit loginUser event s)) = navigations (trace s))"
proof -
  have r: "onResponse response = []"
    using assms by (simp add: onResponse_def)
  show ?thesis
    by (simp add: r onSubmit_single_notifications onSubmit_single_navigations)
qed

text \<open>Scenario D: the response \<open>{}\<close> to a valid form; only the call is in the trace.\<close>

theorem onSubmit_empty_response_witness:
  "\<not> truthy (error \<lparr>token = None, error = JUndefined\<rparr>) \<and>
   \<not> truthyStr (token \<lparr>token = None, error = JUndefined\<rparr>) \<and>
   valid (inputPassword ''password1'' (inputEmail (\<lambda>v. True) ''a@b.com''
      (formGroup_init (\<lambda>v. True)))) \<and>
   onResponse \<lparr>token = None, error = JUndefined\<rparr> =
     [] \<and>
   notifications (trace (onSubmit (\<lambda>u. [\<lparr>token = None, error = JUndefined\<rparr>]) ()
     \<lparr>formGroup = inputPassword ''password1'' (inputEmail (\<lambda>v. True) ''a@b.com''
      (formGroup_init (\<lambda>v. True))),
      trace = []\<rparr>)) =
     [] \<and>
   navigations (trace (onSubmit (\<lambda>u. [\<lparr>token = None, error = JUndefined\<rparr>]) ()
     \<lparr>formGroup = inputPassword ''password1'' (inputEmail (\<lambda>v. True) ''a@b.com''
      (formGroup_init (\<lambda>v. True))),
      trace = []\<rparr>)) =
     []"
proof -
  let ?r = "\<lparr>token = None, error = JUndefined\<rparr>"
  let ?fg = "inputPassword ''password1'' (inputEmail (\<lambda>v. True) ''a@b.com''
      (formGroup_init (\<lambda>v. True)))"
  let ?s = "\<lparr>formGroup = ?fg, trace = []\<rparr>"
  have e: "\<not> truthy (error ?r)" and t: "\<not> truthyStr (token ?r)"
    by simp_all
  have v: "valid ?fg"
    by (simp add: form_defs)
  have v': "valid (formGroup ?s) \<and> (\<lambda>u. [?r]) (formValue (formGroup ?s)) = [?r]"
    using v by simp
  from onSubmit_empty_response [OF e t, of ?s "\<lambda>u. [?r]" "()"] v'
  have "onResponse ?r =
          [] \<and>
        notifications (trace (onSubmit (\<lambda>u. [?r]) () ?s)) =
          notifications (trace ?s) @
          [] \<and>
        navigations (trace (onSubmit (\<lambda>u. [?r]) () ?s)) =
          navigations (trace ?s) @ []"
    by simp
  then have "onResponse ?r =
          [] \<and>
        notifications (trace (onSubmit (\<lambda>u. [?r]) () ?s)) =
          [] \<and>
        navigations (trace (onSubmit (\<lambda>u. [?r]) () ?s)) = []"
    by simp
  with e t v show ?thesis
    by blast
qed

text \<open>
  C9. When both \<open>error\<close> and \<open>token\<close> are truthy the error branch wins: the subscriber
  opens the one notification \<open>Login failed\<close>, no notification \<open>Logged in!\<close>, and does
  not navigate.
\<close>

theorem onResponse_error_precedes_token:
  assumes "truthy (error response)" and "truthyStr (token response)"
  shows "notifications (onResponse response) =
           [(''Login failed'',
             \<lparr>duration = Some 1000, verticalPosition = None, horizontalPosition = None\<rparr>)] \<and>
         ''Logged in!'' \<notin> fst ` set (notifications (onResponse response)) \<and>
         navigations (onResponse response) = [] \<and>
         (valid (formGroup s) \<and> loginUser (formValue (formGroup s)) = [response] \<longrightarrow>
            notifications (trace (onSubmit loginUser event s)) =
              notifications (trace s) @
                [(''Login failed'',
                  \<lparr>duration = Some 1000, verticalPosition = None, horizontalPosition = None\<rparr>)] \<and>
            navigations (trace (onSubmit loginUser event s)) = navigations (trace s))"
proof -
  have r: "onResponse response =
           [SnackBarOpen ''Login failed'' None
              \<lparr>duration = Some 1000, verticalPosition = None, horizontalPosition = None\<rparr>]"
    using assms(1) by (simp add: onResponse_def)
  show ?thesis
    by (simp add: r onSubmit_single_notifications onSubmit_single_navigations)
qed

text \<open>The response \<open>{token: "abc123", error: {code: 401}}\<close> to a valid form.\<close>

theorem onResponse_error_precedes_token_witness:
  "truthy (error \<lparr>token = Some ''abc123'', error = JObj [(''code'', JNum 401)]\<rparr>) \<and>
   truthyStr (token \<lparr>token = Some ''abc123'', error = JObj [(''code'', JNum 401)]\<rparr>) \<and>
   valid (inputPassword ''password1'' (inputEmail (\<lambda>v. True) ''a@b.com''
     (formGroup_init (\<lambda>v. True)))) \<and>
   notifications (trace (onSubmit
       (\<lambda>u. [\<lparr>token = Some ''abc123'', error = JObj [(''code'', JNum 401)]\<rparr>]) ()
     \<lparr>formGroup = inputPassword ''password1'' (inputEmail (\<lambda>v. True) ''a@b.com''
        (formGroup_init (\<lambda>v. True))),
      trace = []\<rparr>)) =
     [(''Login failed'',
       \<lparr>duration = Some 1000, verticalPosition = None, horizontalPosition = None\<rparr>)] \<and>
   navigations (trace (onSubmit
       (\<lambda>u. [\<lparr>token = Some ''abc123'', error = JObj [(''code'', JNum 401)]\<rparr>]) ()
     \<lparr>formGroup = inputPassword ''password1'' (inputEmail (\<lambda>v. True) ''a@b.com''
        (formGroup_init (\<lambda>v. True))),
      trace = []\<rparr>)) = []"
proof -
  let ?r = "\<lparr>token = Some ''abc123'', error = JObj [(''code'', JNum 401)]\<rparr>"
  let ?fg = "inputPassword ''password1'' (inputEmail (\<lambda>v. True) ''a@b.com''
     (formGroup_init (\<lambda>v. True)))"
  let ?s = "\<lparr>formGroup = ?fg, trace = []\<rparr>"
  have e: "truthy (error ?r)" and t: "truthyStr (token ?r)"
    by simp_all
  have v: "valid ?fg"
    by (simp add: form_defs)
  have v': "valid (formGroup ?s) \<and> (\<lambda>u. [?r]) (formValue (formGroup ?s)) = [?r]"
    using v by simp
  from onResponse_error_precedes_token [OF e t, of ?s "\<lambda>u. [?r]" "()"] v'
  have "notifications (trace (onSubmit (\<lambda>u. [?r]) () ?s)) =
          notifications (trace ?s) @
            [(''Login failed'',
              \<lparr>duration = Some 1000, verticalPosition = None, horizontalPosition = None\<rparr>)] \<and>
        navigations (trace (onSubmit (\<lambda>u. [?r]) () ?s)) = navigations (trace ?s)"
    by blast
  then have "notifications (trace (onSubmit (\<lambda>u. [?r]) () ?s)) =
          [(''Login failed'',
            \<lparr>duration = Some 1000, verticalPosition = None, horizontalPosition = None\<rparr>)] \<and>
        navigations (trace (onSubmit (\<lambda>u. [?r]) () ?s)) = []"
    by simp
  with e t v show ?thesis
    by blast
qed

subsection \<open>The hint messages\<close>

text \<open>
  C6. The email hint. \<open>emailMessage$\<close> emits one hint for each emission of
  \<open>valueChanges\<close>, so one each time the user types into an input. At an emission where the
  email control has no errors the hint is empty; where its errors hold a truthy
  \<open>required\<close> it is \<open>This filed is required\<close>, whatever else they hold. At every
  emission caused by the user's interactions with the form of the component: an empty email
  gives \<open>This filed is required\<close>, an email that is not empty and fails the pattern
  gives \<open>Wrong email format\<close>, and one that matches the pattern gives the empty hint.
  When the user types the email \<open>v\<close> the stream emits the hint of \<open>v\<close>.
\<close>

theorem emailMessage_stream_emissions:
  "length (emailMessage_stream valueChanges) = length valueChanges \<and>
   length (emailMessage_stream (changes re (formGroup_init re) evs)) = length (filter emits evs) \<and>
   (\<forall>i < length valueChanges.
      (errors (emailControl (controls (valueChanges ! i))) = None \<longrightarrow>
         emailMessage_stream valueChanges ! i = []) \<and>
      (errors (emailControl (controls (valueChanges ! i))) = Some e \<and> hasError e ''required'' \<longrightarrow>
         emailMessage_stream valueChanges ! i = ''This filed is required'')) \<and>
   (\<forall>i < length (changes re (formGroup_init re) evs).
      (cvalue (emailControl (controls (changes re (formGroup_init re) evs ! i))) = [] \<longrightarrow>
         emailMessage_stream (changes re (formGroup_init re) evs) ! i =
           ''This filed is required'') \<and>
      (cvalue (emailControl (controls (changes re (formGroup_init re) evs ! i))) \<noteq> [] \<and>
       \<not> re (cvalue (emailControl (controls (changes re (formGroup_init re) evs ! i)))) \<longrightarrow>
         emailMessage_stream (changes re (formGroup_init re) evs) ! i = ''Wrong email format'') \<and>
      (cvalue (emailControl (controls (changes re (formGroup_init re) evs ! i))) \<noteq> [] \<and>
       re (cvalue (emailControl (controls (changes re (formGroup_init re) evs ! i)))) \<longrightarrow>
         emailMessage_stream (changes re (formGroup_init re) evs) ! i = [])) \<and>
   last (emailMessage_stream (changes re (formGroup_init re) (evs @ [InputEmail v]))) =
     (if v = [] then ''This filed is required''
      else if re v then [] else ''Wrong email format'')"
proof -
  let ?vc = "changes re (formGroup_init re) evs"
  have len: "length (emailMessage_stream valueChanges) = length valueChanges"
    by (simp add: emailMessage_stream_def rx_map_def)
  have len': "length (emailMessage_stream ?vc) = length (filter emits evs)"
    by (simp add: emailMessage_stream_def rx_map_def length_changes)
  have general: "\<forall>i < length valueChanges.
      (errors (emailControl (controls (valueChanges ! i))) = None \<longrightarrow>
         emailMessage_stream valueChanges ! i = []) \<and>
      (errors (emailControl (controls (valueChanges ! i))) = Some e \<and> hasError e ''required'' \<longrightarrow>
         emailMessage_stream valueChanges ! i = ''This filed is required'')"
    by (simp add: emailMessage_stream_nth emailMessage_def)
  have reached: "\<forall>i < length ?vc.
      (cvalue (emailControl (controls (?vc ! i))) = [] \<longrightarrow>
         emailMessage_stream ?vc ! i = ''This filed is required'') \<and>
      (cvalue (emailControl (controls (?vc ! i))) \<noteq> [] \<and>
       \<not> re (cvalue (emailControl (controls (?vc ! i)))) \<longrightarrow>
         emailMessage_stream ?vc ! i = ''Wrong email format'') \<and>
      (cvalue (emailControl (controls (?vc ! i))) \<noteq> [] \<and>
       re (cvalue (emailControl (controls (?vc ! i)))) \<longrightarrow>
         emailMessage_stream ?vc ! i = [])"
  proof (intro allI impI)
    fix i
    assume i: "i < length ?vc"
    then have "?vc ! i = run re (emissionHistories [] evs ! i)"
      by (rule changes_nth_run)
    with i show "(cvalue (emailControl (controls (?vc ! i))) = [] \<longrightarrow>
         emailMessage_stream ?vc ! i = ''This filed is required'') \<and>
      (cvalue (emailControl (controls (?vc ! i))) \<noteq> [] \<and>
       \<not> re (cvalue (emailControl (controls (?vc ! i)))) \<longrightarrow>
         emailMessage_stream ?vc ! i = ''Wrong email format'') \<and>
      (cvalue (emailControl (controls (?vc ! i))) \<noteq> [] \<and>
       re (cvalue (emailControl (controls (?vc ! i)))) \<longrightarrow>
         emailMessage_stream ?vc ! i = [])"
      by (simp add: emailMessage_stream_nth emailMessage_run)
  qed
  have typed: "last (emailMessage_stream (changes re (formGroup_init re) (evs @ [InputEmail v]))) =
     (if v = [] then ''This filed is required''
      else if re v then [] else ''Wrong email format'')"
    by (simp add: emailMessage_stream_def rx_map_def changes_append emailMessage_inputEmail)
  from len len' general reached typed show ?thesis
    by (intro conjI)
qed

text \<open>
  The user types abc, leaves the input, deletes the text and types a@b.com: the three hints
  emitted are the format hint, the required hint and the empty hint. An emission at which
  the error object holds both keys gives the required hint.
\<close>

theorem emailMessage_stream_emissions_witness:
  "length (emailMessage_stream (changes (\<lambda>v. v = ''a@b.com'') (formGroup_init (\<lambda>v. v = ''a@b.com''))
      [InputEmail ''abc'', BlurEmail, InputEmail [], InputEmail ''a@b.com''])) = 3 \<and>
   cvalue (emailControl (controls (changes (\<lambda>v. v = ''a@b.com'')
      (formGroup_init (\<lambda>v. v = ''a@b.com''))
      [InputEmail ''abc'', BlurEmail, InputEmail [], InputEmail ''a@b.com''] ! 0))) = ''abc'' \<and>
   emailMessage_stream (changes (\<lambda>v. v = ''a@b.com'') (formGroup_init (\<lambda>v. v = ''a@b.com''))
      [InputEmail ''abc'', BlurEmail, InputEmail [], InputEmail ''a@b.com'']) ! 0 =
     ''Wrong email format'' \<and>
   cvalue (emailControl (controls (changes (\<lambda>v. v = ''a@b.com'')
      (formGroup_init (\<lambda>v. v = ''a@b.com''))
      [InputEmail ''abc'', BlurEmail, InputEmail [], InputEmail ''a@b.com''] ! 1))) = [] \<and>
   emailMessage_stream (changes (\<lambda>v. v = ''a@b.com'') (formGroup_init (\<lambda>v. v = ''a@b.com''))
      [InputEmail ''abc'', BlurEmail, InputEmail [], InputEmail ''a@b.com'']) ! 1 =
     ''This filed is required'' \<and>
   errors (emailControl (controls (changes (\<lambda>v. v = ''a@b.com'')
      (formGroup_init (\<lambda>v. v = ''a@b.com''))
      [InputEmail ''abc'', BlurEmail, InputEmail [], InputEmail ''a@b.com''] ! 2))) = None \<and>
   emailMessage_stream (changes (\<lambda>v. v = ''a@b.com'') (formGroup_init (\<lambda>v. v = ''a@b.com''))
      [InputEmail ''abc'', BlurEmail, InputEmail [], InputEmail ''a@b.com'']) ! 2 = [] \<and>
   hasError [(''email'', JBool True), (''required'', JBool True)] ''required'' \<and>
   emailMessage_stream
     [\<lparr>controls =
         \<lparr>emailControl =
            \<lparr>cvalue = [], errors = Some [(''email'', JBool True), (''required'', JBool True)],
             dirty = False, touched = False\<rparr>,
          passwordControl = newFormControl passwordValidators []\<rparr>,
       status = INVALID\<rparr>] ! 0 = ''This filed is required''"
proof -
  let ?re = "\<lambda>v. v = ''a@b.com''"
  let ?evs = "[InputEmail ''abc'', BlurEmail, InputEmail [], InputEmail ''a@b.com'']"
  let ?vc = "changes ?re (formGroup_init ?re) ?evs"
  let ?both = "[(''email'', JBool True), (''required'', JBool True)]"
  let ?fg = "\<lparr>controls =
         \<lparr>emailControl = \<lparr>cvalue = [], errors = Some ?both, dirty = False, touched = False\<rparr>,
          passwordControl = newFormControl passwordValidators []\<rparr>,
       status = INVALID\<rparr>"
  have l0: "0 < length ?vc" and l1: "1 < length ?vc" and l2: "2 < length ?vc"
    by simp_all
  have v0: "cvalue (emailControl (controls (?vc ! 0))) = ''abc''"
    and v1: "cvalue (emailControl (controls (?vc ! 1))) = []"
    by (simp_all add: blurEmail_def form_defs)
  have e2: "errors (emailControl (controls (?vc ! 2))) = None"
    by (simp add: blurEmail_def form_defs)
  from v0 have v0': "cvalue (emailControl (controls (?vc ! 0))) \<noteq> [] \<and>
      \<not> ?re (cvalue (emailControl (controls (?vc ! 0))))"
    by simp
  have lb: "0 < length [?fg]"
    by simp
  have hb: "errors (emailControl (controls ([?fg] ! 0))) = Some ?both \<and> hasError ?both ''required''"
    by (simp add: hasError_def)
  note T = emailMessage_stream_emissions [where valueChanges = ?vc and re = ?re and evs = ?evs
    and e = ?both and v = "[]"]
  note U = emailMessage_stream_emissions [where valueChanges = "[?fg]" and re = ?re and evs = ?evs
    and e = ?both and v = "[]"]
  from T have len: "length (emailMessage_stream ?vc) = length (filter emits ?evs)"
    by blast
  then have c: "length (emailMessage_stream ?vc) = 3"
    by simp
  from T l0 v0' have c0: "emailMessage_stream ?vc ! 0 = ''Wrong email format''"
    by blast
  from T l1 v1 have c1: "emailMessage_stream ?vc ! 1 = ''This filed is required''"
    by blast
  from T l2 e2 have c2: "emailMessage_stream ?vc ! 2 = []"
    by blast
  from U lb hb have cb: "emailMessage_stream [?fg] ! 0 = ''This filed is required''"
    by blast
  from c v0 c0 v1 c1 e2 c2 hb cb show ?thesis
    by blast
qed

text \<open>
  C7. The password hint, with a touched field read as one the user has interacted with
  (typed into or left). \<open>passwordMessage$\<close> emits one hint for each emission of
  \<open>valueChanges\<close>, so one each time the user types into an input. At an emission before
  any interaction with the password input the hint is empty, whatever the validity; so it
  is whenever the control is not dirty. At an emission after an interaction, a password
  that is not empty and shorter than 8 characters gives
  \<open>Password should have at least 8 characters\<close>. A dirty control whose errors hold a
  truthy \<open>required\<close> gives \<open>Password is required\<close>, whatever else they hold, and that is
  the hint of a dirty control with an empty value. When the user types the password \<open>v\<close>
  the stream emits the hint of \<open>v\<close>.
\<close>

theorem passwordMessage_stream_emissions:
  "length (passwordMessage_stream valueChanges) = length valueChanges \<and>
   length (passwordMessage_stream (changes re (formGroup_init re) evs)) =
     length (filter emits evs) \<and>
   (\<forall>i < length valueChanges.
      (\<not> dirty (passwordControl (controls (valueChanges ! i))) \<longrightarrow>
         passwordMessage_stream valueChanges ! i = []) \<and>
      (dirty (passwordControl (controls (valueChanges ! i))) \<and>
       errors (passwordControl (controls (valueChanges ! i))) = Some e \<and>
       hasError e ''required'' \<longrightarrow>
         passwordMessage_stream valueChanges ! i = ''Password is required'')) \<and>
   (\<forall>i < length (changes re (formGroup_init re) evs).
      (\<not> interactedPassword (emissionHistories [] evs ! i) \<longrightarrow>
         passwordMessage_stream (changes re (formGroup_init re) evs) ! i = []) \<and>
      (interactedPassword (emissionHistories [] evs ! i) \<and>
       cvalue (passwordControl (controls (changes re (formGroup_init re) evs ! i))) \<noteq> [] \<and>
       length (cvalue (passwordControl (controls (changes re (formGroup_init re) evs ! i)))) < 8 \<longrightarrow>
         passwordMessage_stream (changes re (formGroup_init re) evs) ! i =
           ''Password should have at least 8 characters'') \<and>
      (dirty (passwordControl (controls (changes re (formGroup_init re) evs ! i))) \<and>
       cvalue (passwordControl (controls (changes re (formGroup_init re) evs ! i))) = [] \<longrightarrow>
         passwordMessage_stream (changes re (formGroup_init re) evs) ! i =
           ''Password is required'')) \<and>
   last (passwordMessage_stream (changes re (formGroup_init re) (evs @ [InputPassword v]))) =
     (if v = [] then ''Password is required''
      else if length v < 8 then ''Password should have at least 8 characters'' else [])"
proof -
  let ?vc = "changes re (formGroup_init re) evs"
  let ?hs = "emissionHistories [] evs"
  have len: "length (passwordMessage_stream valueChanges) = length valueChanges"
    by (simp add: passwordMessage_stream_def rx_map_def)
  have len': "length (passwordMessage_stream ?vc) = length (filter emits evs)"
    by (simp add: passwordMessage_stream_def rx_map_def length_changes)
  have general: "\<forall>i < length valueChanges.
      (\<not> dirty (passwordControl (controls (valueChanges ! i))) \<longrightarrow>
         passwordMessage_stream valueChanges ! i = []) \<and>
      (dirty (passwordControl (controls (valueChanges ! i))) \<and>
       errors (passwordControl (controls (valueChanges ! i))) = Some e \<and>
       hasError e ''required'' \<longrightarrow>
         passwordMessage_stream valueChanges ! i = ''Password is required'')"
    by (simp add: passwordMessage_stream_nth passwordMessage_not_dirty)
      (simp add: passwordMessage_def)
  have reached: "\<forall>i < length ?vc.
      (\<not> interactedPassword (?hs ! i) \<longrightarrow> passwordMessage_stream ?vc ! i = []) \<and>
      (interactedPassword (?hs ! i) \<and>
       cvalue (passwordControl (controls (?vc ! i))) \<noteq> [] \<and>
       length (cvalue (passwordControl (controls (?vc ! i)))) < 8 \<longrightarrow>
         passwordMessage_stream ?vc ! i = ''Password should have at least 8 characters'') \<and>
      (dirty (passwordControl (controls (?vc ! i))) \<and>
       cvalue (passwordControl (controls (?vc ! i))) = [] \<longrightarrow>
         passwordMessage_stream ?vc ! i = ''Password is required'')"
  proof (intro allI impI)
    fix i
    assume i: "i < length ?vc"
    then have eq: "?vc ! i = run re (?hs ! i)"
      by (rule changes_nth_run)
    from i have nth: "passwordMessage_stream ?vc ! i = passwordMessage (run re (?hs ! i))"
      by (simp add: passwordMessage_stream_nth eq)
    show "(\<not> interactedPassword (?hs ! i) \<longrightarrow> passwordMessage_stream ?vc ! i = []) \<and>
      (interactedPassword (?hs ! i) \<and>
       cvalue (passwordControl (controls (?vc ! i))) \<noteq> [] \<and>
       length (cvalue (passwordControl (controls (?vc ! i)))) < 8 \<longrightarrow>
         passwordMessage_stream ?vc ! i = ''Password should have at least 8 characters'') \<and>
      (dirty (passwordControl (controls (?vc ! i))) \<and>
       cvalue (passwordControl (controls (?vc ! i))) = [] \<longrightarrow>
         passwordMessage_stream ?vc ! i = ''Password is required'')"
      unfolding nth eq
      by (simp add: passwordMessage_run_pristine passwordMessage_run_short
          passwordMessage_run_empty)
  qed
  have typed: "last (passwordMessage_stream (changes re (formGroup_init re)
      (evs @ [InputPassword v]))) =
     (if v = [] then ''Password is required''
      else if length v < 8 then ''Password should have at least 8 characters'' else [])"
    by (simp add: passwordMessage_stream_def rx_map_def changes_append
        passwordMessage_inputPassword)
  from len len' general reached typed show ?thesis
    by (intro conjI)
qed

text \<open>
  The user types an email, then abc as the password, deletes it, leaves the input and types
  password1: the first three hints emitted are the empty hint, the length hint and the
  required hint. An emission at which the error object of a dirty control holds both keys
  gives the required hint, and one at which the control is touched and not dirty the empty
  hint.
\<close>

theorem passwordMessage_stream_emissions_witness:
  "length (passwordMessage_stream (changes (\<lambda>v. True) (formGroup_init (\<lambda>v. True))
      [InputEmail ''a'', InputPassword ''abc'', InputPassword [], BlurPassword,
       InputPassword ''password1''])) = 4 \<and>
   \<not> interactedPassword (emissionHistories []
      [InputEmail ''a'', InputPassword ''abc'', InputPassword [], BlurPassword,
       InputPassword ''password1''] ! 0) \<and>
   passwordMessage_stream (changes (\<lambda>v. True) (formGroup_init (\<lambda>v. True))
      [InputEmail ''a'', InputPassword ''abc'', InputPassword [], BlurPassword,
       InputPassword ''password1'']) ! 0 = [] \<and>
   interactedPassword (emissionHistories []
      [InputEmail ''a'', InputPassword ''abc'', InputPassword [], BlurPassword,
       InputPassword ''password1''] ! 1) \<and>
   cvalue (passwordControl (controls ((changes (\<lambda>v. True) (formGroup_init (\<lambda>v. True))
      [InputEmail ''a'', InputPassword ''abc'', InputPassword [], BlurPassword,
       InputPassword ''password1'']) ! 1))) = ''abc'' \<and>
   passwordMessage_stream (changes (\<lambda>v. True) (formGroup_init (\<lambda>v. True))
      [InputEmail ''a'', InputPassword ''abc'', InputPassword [], BlurPassword,
       InputPassword ''password1'']) ! 1 = ''Password should have at least 8 characters'' \<and>
   dirty (passwordControl (controls ((changes (\<lambda>v. True) (formGroup_init (\<lambda>v. True))
      [InputEmail ''a'', InputPassword ''abc'', InputPassword [], BlurPassword,
       InputPassword ''password1'']) ! 2))) \<and>
   cvalue (passwordControl (controls ((changes (\<lambda>v. True) (formGroup_init (\<lambda>v. True))
      [InputEmail ''a'', InputPassword ''abc'', InputPassword [], BlurPassword,
       InputPassword ''password1'']) ! 2))) = [] \<and>
   passwordMessage_stream (changes (\<lambda>v. True) (formGroup_init (\<lambda>v. True))
      [InputEmail ''a'', InputPassword ''abc'', InputPassword [], BlurPassword,
       InputPassword ''password1'']) ! 2 = ''Password is required'' \<and>
   hasError [(''minlength'', JBool True), (''required'', JBool True)] ''required'' \<and>
   passwordMessage_stream
     [\<lparr>controls =
         \<lparr>emailControl = newFormControl [required] [],
          passwordControl =
            \<lparr>cvalue = [],
             errors = Some [(''minlength'', JBool True), (''required'', JBool True)],
             dirty = True, touched = False\<rparr>\<rparr>,
       status = INVALID\<rparr>,
      \<lparr>controls =
         \<lparr>emailControl = newFormControl [required] [],
          passwordControl = (newFormControl passwordValidators ''abc'')\<lparr>touched := True\<rparr>\<rparr>,
       status = INVALID\<rparr>] ! 0 = ''Password is required'' \<and>
   \<not> dirty (passwordControl (controls
     ([\<lparr>controls =
         \<lparr>emailControl = newFormControl [required] [],
          passwordControl =
            \<lparr>cvalue = [],
             errors = Some [(''minlength'', JBool True), (''required'', JBool True)],
             dirty = True, touched = False\<rparr>\<rparr>,
       status = INVALID\<rparr>,
      \<lparr>controls =
         \<lparr>emailControl = newFormControl [required] [],
          passwordControl = (newFormControl passwordValidators ''abc'')\<lparr>touched := True\<rparr>\<rparr>,
       status = INVALID\<rparr>] ! 1))) \<and>
   passwordMessage_stream
     [\<lparr>controls =
         \<lparr>emailControl = newFormControl [required] [],
          passwordControl =
            \<lparr>cvalue = [],
             errors = Some [(''minlength'', JBool True), (''required'', JBool True)],
             dirty = True, touched = False\<rparr>\<rparr>,
       status = INVALID\<rparr>,
      \<lparr>controls =
         \<lparr>emailControl = newFormControl [required] [],
          passwordControl = (newFormControl passwordValidators ''abc'')\<lparr>touched := True\<rparr>\<rparr>,
       status = INVALID\<rparr>] ! 1 = []"
proof -
  let ?re = "\<lambda>v::string. True"
  let ?evs = "[InputEmail ''a'', InputPassword ''abc'', InputPassword [], BlurPassword,
       InputPassword ''password1'']"
  let ?vc = "changes ?re (formGroup_init ?re) ?evs"
  let ?hs = "emissionHistories [] ?evs"
  let ?both = "[(''minlength'', JBool True), (''required'', JBool True)]"
  let ?fg = "\<lparr>controls =
         \<lparr>emailControl = newFormControl [required] [],
          passwordControl = \<lparr>cvalue = [], errors = Some ?both, dirty = True, touched = False\<rparr>\<rparr>,
       status = INVALID\<rparr>"
  let ?fg' = "\<lparr>controls =
         \<lparr>emailControl = newFormControl [required] [],
          passwordControl = (newFormControl passwordValidators ''abc'')\<lparr>touched := True\<rparr>\<rparr>,
       status = INVALID\<rparr>"
  have l0: "0 < length ?vc" and l1: "1 < length ?vc" and l2: "2 < length ?vc"
    by simp_all
  have h0: "\<not> interactedPassword (?hs ! 0)" and h1: "interactedPassword (?hs ! 1)"
    by (simp_all add: interactedPassword_def)
  have v1: "cvalue (passwordControl (controls (?vc ! 1))) = ''abc''"
    and d2: "dirty (passwordControl (controls (?vc ! 2)))"
    and v2: "cvalue (passwordControl (controls (?vc ! 2))) = []"
    by (simp_all add: ui_defs)
  from v1 have v1': "cvalue (passwordControl (controls (?vc ! 1))) \<noteq> [] \<and>
      length (cvalue (passwordControl (controls (?vc ! 1)))) < 8"
    by simp
  have lb0: "0 < length [?fg, ?fg']" and lb1: "1 < length [?fg, ?fg']"
    by simp_all
  have hb: "hasError ?both ''required''"
    by (simp add: hasError_def)
  then have hb0: "dirty (passwordControl (controls ([?fg, ?fg'] ! 0))) \<and>
      errors (passwordControl (controls ([?fg, ?fg'] ! 0))) = Some ?both \<and>
      hasError ?both ''required''"
    by simp
  have hb1: "\<not> dirty (passwordControl (controls ([?fg, ?fg'] ! 1)))"
    by (simp add: newFormControl_def)
  note T = passwordMessage_stream_emissions [where valueChanges = ?vc and re = ?re
    and evs = ?evs and e = ?both and v = "[]"]
  note U = passwordMessage_stream_emissions [where valueChanges = "[?fg, ?fg']" and re = ?re
    and evs = ?evs and e = ?both and v = "[]"]
  from T have "length (passwordMessage_stream ?vc) = length (filter emits ?evs)"
    by blast
  then have c: "length (passwordMessage_stream ?vc) = 4"
    by simp
  from T l0 h0 have c0: "passwordMessage_stream ?vc ! 0 = []"
    by blast
  from T l1 h1 v1' have c1: "passwordMessage_stream ?vc ! 1 =
      ''Password should have at least 8 characters''"
    by blast
  from T l2 d2 v2 have c2: "passwordMessage_stream ?vc ! 2 = ''Password is required''"
    by blast
  from U lb0 hb0 have u0: "passwordMessage_stream [?fg, ?fg'] ! 0 = ''Password is required''"
    by blast
  from U lb1 hb1 have u1: "passwordMessage_stream [?fg, ?fg'] ! 1 = []"
    by blast
  from c h0 c0 h1 v1 c1 d2 v2 c2 hb u0 hb1 u1 show ?thesis
    by blast
qed

text \<open>
  The flag the source reads is \<open>dirty\<close>; the flag \<open>touched\<close> of the control plays no part.
  While the user types the first characters the control is not yet touched and the hint is
  emitted; after the input was left without typing the control is touched and has the error
  \<open>required\<close>, and the hint emitted at the next change of the form is empty.
\<close>

theorem passwordMessage_reads_dirty:
  "passwordMessage
     (fg\<lparr>controls := (controls fg)\<lparr>passwordControl :=
        (passwordControl (controls fg))\<lparr>touched := t\<rparr>\<rparr>\<rparr>) = passwordMessage fg \<and>
   \<not> touched (passwordControl (controls (run re [InputPassword ''abc'']))) \<and>
   passwordMessage (run re [InputPassword ''abc'']) =
     ''Password should have at least 8 characters'' \<and>
   touched (passwordControl (controls (run re [BlurPassword, InputEmail v]))) \<and>
   errors (passwordControl (controls (run re [BlurPassword, InputEmail v]))) =
     Some [(''required'', JBool True)] \<and>
   passwordMessage (run re [BlurPassword, InputEmail v]) = [] \<and>
   passwordMessage_stream (changes re (formGroup_init re) [InputPassword ''abc'']) =
     [''Password should have at least 8 characters''] \<and>
   passwordMessage_stream (changes re (formGroup_init re) [BlurPassword, InputEmail v]) = [[]]"
  by (simp add: passwordMessage_stream_def rx_map_def passwordMessage_def run_def blurEmail_def
      form_defs split: option.split)

subsection \<open>The disabled state of the submit button\<close>

text \<open>
  C8. The first value of \<open>buttonDisabled$\<close> is \<open>true\<close> whatever the form holds.
  After it, at every emission of \<open>statusChanges\<close> at which the form is not valid, and so
  whenever one of the two fields has errors, the stream emits \<open>true\<close>. The form at the
  start may be any form; the emissions are those the interactions cause.
\<close>

theorem buttonDisabled_invalid_form:
  "hd (buttonDisabled statusChanges) = True \<and>
   (\<forall>i < length (changes re fg0 evs).
      \<not> valid (changes re fg0 evs ! i) \<longrightarrow>
        buttonDisabled (map status (changes re fg0 evs)) ! Suc i = True) \<and>
   (\<forall>i < length (changes re fg0 evs).
      errors (emailControl (controls (changes re fg0 evs ! i))) \<noteq> None \<or>
      errors (passwordControl (controls (changes re fg0 evs ! i))) \<noteq> None \<longrightarrow>
        buttonDisabled (map status (changes re fg0 evs)) ! Suc i = True)"
proof (intro conjI allI impI)
  show "hd (buttonDisabled statusChanges) = True"
    by (simp add: buttonDisabled_def startWith_def)
next
  fix i
  assume i: "i < length (changes re fg0 evs)" and nv: "\<not> valid (changes re fg0 evs ! i)"
  from i have "changes re fg0 evs ! i \<in> set (changes re fg0 evs)"
    by simp
  then have "status (changes re fg0 evs ! i) = calculateStatus (controls (changes re fg0 evs ! i))"
    by (rule status_changes)
  with nv calculateStatus_cases [of "controls (changes re fg0 evs ! i)"]
  have "status (changes re fg0 evs ! i) = INVALID"
    by (auto simp add: valid_def)
  with i show "buttonDisabled (map status (changes re fg0 evs)) ! Suc i = True"
    by (simp add: buttonDisabled_nth)
next
  fix i
  assume i: "i < length (changes re fg0 evs)"
    and e: "errors (emailControl (controls (changes re fg0 evs ! i))) \<noteq> None \<or>
      errors (passwordControl (controls (changes re fg0 evs ! i))) \<noteq> None"
  from i have "changes re fg0 evs ! i \<in> set (changes re fg0 evs)"
    by simp
  then have "status (changes re fg0 evs ! i) = calculateStatus (controls (changes re fg0 evs ! i))"
    by (rule status_changes)
  with e have "status (changes re fg0 evs ! i) = INVALID"
    by (auto simp add: calculateStatus_def controlStatus_def)
  with i show "buttonDisabled (map status (changes re fg0 evs)) ! Suc i = True"
    by (simp add: buttonDisabled_nth)
qed

text \<open>
  The email is typed first, then a short password, then a long one: the first two emissions
  after the initial one are \<open>true\<close>.
\<close>

theorem buttonDisabled_invalid_form_witness:
  "(0::nat) < length (changes (\<lambda>v. True) (formGroup_init (\<lambda>v. True))
      [InputEmail ''a@b.com'', InputPassword ''pass'', InputPassword ''password1'']) \<and>
   \<not> valid (changes (\<lambda>v. True) (formGroup_init (\<lambda>v. True))
      [InputEmail ''a@b.com'', InputPassword ''pass'', InputPassword ''password1''] ! 0) \<and>
   buttonDisabled (map status (changes (\<lambda>v. True) (formGroup_init (\<lambda>v. True))
      [InputEmail ''a@b.com'', InputPassword ''pass'', InputPassword ''password1''])) ! Suc 0 \<and>
   (1::nat) < length (changes (\<lambda>v. True) (formGroup_init (\<lambda>v. True))
      [InputEmail ''a@b.com'', InputPassword ''pass'', InputPassword ''password1'']) \<and>
   errors (passwordControl (controls (changes (\<lambda>v. True) (formGroup_init (\<lambda>v. True))
      [InputEmail ''a@b.com'', InputPassword ''pass'', InputPassword ''password1''] ! 1))) \<noteq> None \<and>
   buttonDisabled (map status (changes (\<lambda>v. True) (formGroup_init (\<lambda>v. True))
      [InputEmail ''a@b.com'', InputPassword ''pass'', InputPassword ''password1''])) ! Suc 1"
proof -
  let ?cs = "changes (\<lambda>v. True) (formGroup_init (\<lambda>v. True))
      [InputEmail ''a@b.com'', InputPassword ''pass'', InputPassword ''password1'']"
  have l0: "(0::nat) < length ?cs" and l1: "(1::nat) < length ?cs"
    by simp_all
  have h0: "\<not> valid (?cs ! 0)"
    by (simp add: form_defs)
  have h1: "errors (emailControl (controls (?cs ! 1))) \<noteq> None \<or>
      errors (passwordControl (controls (?cs ! 1))) \<noteq> None"
    and h1': "errors (passwordControl (controls (?cs ! 1))) \<noteq> None"
    by (simp_all add: form_defs)
  note T = buttonDisabled_invalid_form [where statusChanges = "[]" and re = "\<lambda>v. True"
    and ?fg0.0 = "formGroup_init (\<lambda>v. True)"
    and evs = "[InputEmail ''a@b.com'', InputPassword ''pass'', InputPassword ''password1'']"]
  from T l0 h0 have c0: "buttonDisabled (map status ?cs) ! Suc 0"
    by blast
  from T l1 h1 have c1: "buttonDisabled (map status ?cs) ! Suc 1"
    by blast
  from l0 h0 c0 l1 h1' c1 show ?thesis
    by blast
qed

text \<open>
  C10. After the initial value the stream has one value for each status emitted, and it is
  \<open>true\<close> exactly when that status is \<open>INVALID\<close>: for \<open>VALID\<close>, \<open>PENDING\<close> and
  \<open>DISABLED\<close> it is \<open>false\<close>.
\<close>

theorem buttonDisabled_emissions:
  "length (buttonDisabled ss) = Suc (length ss) \<and>
   (\<forall>i < length ss. buttonDisabled ss ! Suc i = (ss ! i = INVALID)) \<and>
   buttonDisabled [VALID, PENDING, DISABLED, INVALID] = [True, False, False, False, True]"
proof (intro conjI allI impI)
  show "length (buttonDisabled ss) = Suc (length ss)"
    by (simp add: buttonDisabled_def startWith_def rx_map_def)
next
  fix i
  assume "i < length ss"
  then show "buttonDisabled ss ! Suc i = (ss ! i = INVALID)"
    by (rule buttonDisabled_nth)
next
  show "buttonDisabled [VALID, PENDING, DISABLED, INVALID] = [True, False, False, False, True]"
    by (simp add: buttonDisabled_def startWith_def rx_map_def)
qed

text \<open>The status \<open>PENDING\<close> followed by \<open>INVALID\<close>.\<close>

theorem buttonDisabled_emissions_witness:
  "(0::nat) < length [PENDING, INVALID] \<and>
   \<not> buttonDisabled [PENDING, INVALID] ! Suc 0 \<and>
   (1::nat) < length [PENDING, INVALID] \<and>
   buttonDisabled [PENDING, INVALID] ! Suc 1"
proof -
  have l0: "(0::nat) < length [PENDING, INVALID]" and l1: "(1::nat) < length [PENDING, INVALID]"
    by simp_all
  note T = buttonDisabled_emissions [where ss = "[PENDING, INVALID]"]
  from T l0 have "buttonDisabled [PENDING, INVALID] ! Suc 0 = ([PENDING, INVALID] ! 0 = INVALID)"
    by blast
  then have c0: "\<not> buttonDisabled [PENDING, INVALID] ! Suc 0"
    by simp
  from T l1 have "buttonDisabled [PENDING, INVALID] ! Suc 1 = ([PENDING, INVALID] ! 1 = INVALID)"
    by blast
  then have c1: "buttonDisabled [PENDING, INVALID] ! Suc 1"
    by simp
  from l0 c0 l1 c1 show ?thesis
    by blast
qed

end
